theory Spec2Isabelle
  imports Main "HOL-Library.Word" "HOL-Library.Signed_Division"
begin

section \<open>The syntax tree\<close>

type_synonym int64 = "64 word"

text \<open>
  Modelled from the spec: package \<open>ast\<close> is not part of the sources. The node kinds are
  those of the data model (section 3 of the specification), with the fields that
  \<open>evaluator.go\<close> reads: \<open>Statements\<close>, \<open>Expression\<close>, \<open>Value\<close>, \<open>Operator\<close>, \<open>Right\<close>,
  \<open>Left\<close>, \<open>Condition\<close>, \<open>Consequence\<close>, \<open>Alternative\<close> (a pointer that may be \<open>nil\<close>, hence
  an option), \<open>ReturnValue\<close> and \<open>Name.Value\<close>. The literal \<open>ast.Boolean\<close> is called
  \<open>BooleanLiteral\<close> here, since \<open>Boolean\<close> is the runtime object. \<open>OtherNode\<close> stands for
  every node the type switch of \<open>Eval\<close> has no case for (the \<open>nil\<close> node included).
\<close>

datatype node =
    Program "node list"
  | BlockStatement "node list"
  | ExpressionStatement node
  | IntegerLiteral int64
  | BooleanLiteral bool
  | PrefixExpression string node
  | IfExpression node node "node option"
  | InfixExpression node string node
  | ReturnStatement node
  | LetStatement string node
  | Identifier string
  | OtherNode

text \<open>
  Modelled from the spec: package \<open>token\<close> is not part of the sources. The operator
  tokens are the symbols the specification writes for them.
\<close>

definition PLUS :: string where "PLUS = ''+''"
definition MINUS :: string where "MINUS = ''-''"
definition ASTERISK :: string where "ASTERISK = ''*''"
definition SLASH :: string where "SLASH = ''/''"
definition EQ :: string where "EQ = ''==''"
definition NOT_EQ :: string where "NOT_EQ = ''!=''"
definition LT :: string where "LT = ''<''"
definition GT :: string where "GT = ''>''"
definition BANG :: string where "BANG = ''!''"

section \<open>Runtime objects\<close>

text \<open>
  Modelled from the spec: package \<open>object\<close> is not part of the sources. An
  \<open>object.Object\<close> is an interface value holding a pointer, or \<open>nil\<close>: here an
  \<open>object option\<close>, \<open>None\<close> being \<open>nil\<close>. Integers, return values and errors are allocated
  by the evaluator, so each carries the address it was allocated at; objects are never
  mutated, so the address and the content travel together. Of Boolean there are exactly
  the two instances \<open>TRUE\<close> and \<open>FALSE\<close>, of Null the single instance \<open>NULL\<close> (section 3 of
  the specification), so for these the value is the identity.
\<close>

type_synonym addr = nat

datatype object =
    Integer addr int64
  | Boolean bool
  | Null
  | ReturnValue addr "object option"
  | Error addr string

definition TRUE :: object where "TRUE = Boolean True"
definition FALSE :: object where "FALSE = Boolean False"
definition NULL :: object where "NULL = Null"

definition INTEGER_OBJ :: string where "INTEGER_OBJ = ''INTEGER''"
definition BOOLEAN_OBJ :: string where "BOOLEAN_OBJ = ''BOOLEAN''"
definition NULL_OBJ :: string where "NULL_OBJ = ''NULL''"
definition RETURN_VALUE_OBJ :: string where "RETURN_VALUE_OBJ = ''RETURN_VALUE''"
definition ERROR_OBJ :: string where "ERROR_OBJ = ''ERROR''"

fun Type :: "object \<Rightarrow> string" where
  "Type (Integer a v) = INTEGER_OBJ"
| "Type (Boolean b) = BOOLEAN_OBJ"
| "Type Null = NULL_OBJ"
| "Type (ReturnValue a v) = RETURN_VALUE_OBJ"
| "Type (Error a m) = ERROR_OBJ"

text \<open>
  Go's \<open>==\<close> on two interface values that hold pointers: both \<open>nil\<close>, or the same dynamic
  type and the same pointer.
\<close>

fun same_pointer :: "object \<Rightarrow> object \<Rightarrow> bool" where
  "same_pointer (Integer p v) (Integer q w) = (p = q)"
| "same_pointer (Boolean a) (Boolean b) = (a = b)"
| "same_pointer Null Null = True"
| "same_pointer (ReturnValue p v) (ReturnValue q w) = (p = q)"
| "same_pointer (Error p m) (Error q n) = (p = q)"
| "same_pointer x y = False"

fun interface_eq :: "object option \<Rightarrow> object option \<Rightarrow> bool" where
  "interface_eq None None = True"
| "interface_eq (Some x) (Some y) = same_pointer x y"
| "interface_eq x y = False"

section \<open>The environment and the state of an evaluation\<close>

text \<open>
  Modelled from the spec: \<open>object.Environment\<close> is not part of the sources. It is a flat
  store from names to objects (section 4.3 of the specification): \<open>Set\<close> creates or
  overwrites the binding, \<open>Get\<close> returns the bound object and whether the name is bound.
  A bound value is an interface value, so it may be \<open>nil\<close>.
\<close>

type_synonym Environment = "string \<rightharpoonup> object option"

definition Get :: "Environment \<Rightarrow> string \<Rightarrow> object option \<times> bool" where
  "Get e name = (case e name of None \<Rightarrow> (None, False) | Some v \<Rightarrow> (v, True))"

definition Set :: "Environment \<Rightarrow> string \<Rightarrow> object option \<Rightarrow> Environment" where
  "Set e name v = e(name \<mapsto> v)"

text \<open>
  What an evaluation changes: the environment it was given, and the heap, of which the
  model keeps the number of objects allocated so far (the next fresh address).
\<close>

record state =
  env :: Environment
  allocs :: addr

text \<open>
  Run-time panics of Go: a method call on a \<open>nil\<close> interface value, an integer division by
  zero, a failed type assertion.
\<close>

datatype panic = NilDereference | DivideByZero | TypeAssertion

type_synonym 'a result = "panic + 'a \<times> state"

definition new_Integer :: "int64 \<Rightarrow> state \<Rightarrow> object \<times> state" where
  "new_Integer v st = (Integer (allocs st) v, st\<lparr>allocs := allocs st + 1\<rparr>)"

definition new_ReturnValue :: "object option \<Rightarrow> state \<Rightarrow> object \<times> state" where
  "new_ReturnValue v st = (ReturnValue (allocs st) v, st\<lparr>allocs := allocs st + 1\<rparr>)"

text \<open>\<open>newError\<close> takes the message that \<open>fmt.Sprintf\<close> has built.\<close>

definition newError :: "string \<Rightarrow> state \<Rightarrow> object \<times> state" where
  "newError msg st = (Error (allocs st) msg, st\<lparr>allocs := allocs st + 1\<rparr>)"

section \<open>The evaluator\<close>

definition isError :: "object option \<Rightarrow> bool" where
  "isError obj = (case obj of Some x \<Rightarrow> Type x = ERROR_OBJ | None \<Rightarrow> False)"

definition nativeBoolToBooleanObject :: "bool \<Rightarrow> object" where
  "nativeBoolToBooleanObject input = (if input then TRUE else FALSE)"

definition isTruthy :: "object option \<Rightarrow> bool" where
  "isTruthy obj =
     (if interface_eq obj (Some NULL) then False
      else if interface_eq obj (Some TRUE) then True
      else if interface_eq obj (Some FALSE) then False
      else True)"

definition evalBangOperator :: "object option \<Rightarrow> object" where
  "evalBangOperator o' =
     (if interface_eq o' (Some TRUE) then FALSE
      else if interface_eq o' (Some FALSE) then TRUE
      else if interface_eq o' (Some NULL) then TRUE
      else FALSE)"

text \<open>
  Go's \<open>/\<close> on \<open>int64\<close>: the quotient truncated towards zero, wrapped to 64 bits (the one
  quotient that does not fit is that of the least value by \<open>-1\<close>); the caller has excluded
  the divisor zero, on which Go panics.
\<close>

definition int64_quo :: "int64 \<Rightarrow> int64 \<Rightarrow> int64" where
  "int64_quo a b = word_of_int (sint a sdiv sint b)"

text \<open>
  \<open>left\<close> and \<open>right\<close> are \<open>*object.Integer\<close>; the function reads their \<open>Value\<close> fields, and
  their \<open>Type()\<close>, which is \<open>INTEGER_OBJ\<close>.
\<close>

definition evalIntegerInfixExpression ::
  "int64 \<Rightarrow> int64 \<Rightarrow> string \<Rightarrow> state \<Rightarrow> object result" where
  "evalIntegerInfixExpression left right operator st =
     (if operator = PLUS then Inr (new_Integer (left + right) st)
      else if operator = MINUS then Inr (new_Integer (left - right) st)
      else if operator = ASTERISK then Inr (new_Integer (left * right) st)
      else if operator = SLASH then
        (if right = 0 then Inl DivideByZero else Inr (new_Integer (int64_quo left right) st))
      else if operator = EQ then Inr (nativeBoolToBooleanObject (left = right), st)
      else if operator = NOT_EQ then Inr (nativeBoolToBooleanObject (left \<noteq> right), st)
      else if operator = LT then Inr (nativeBoolToBooleanObject (left <s right), st)
      else if operator = GT then Inr (nativeBoolToBooleanObject (right <s left), st)
      else Inr (newError (''unknown operator: '' @ INTEGER_OBJ @ '' '' @ operator @ '' ''
                            @ INTEGER_OBJ) st))"

definition evalInfixExpression ::
  "object option \<Rightarrow> object option \<Rightarrow> string \<Rightarrow> state \<Rightarrow> object result" where
  "evalInfixExpression left right operator st =
     (case (left, right) of
        (Some l, Some r) \<Rightarrow>
          if Type l \<noteq> Type r then
            Inr (newError (''type mismatch: '' @ Type l @ '' + '' @ Type r) st)
          else if Type l = INTEGER_OBJ \<and> Type r = INTEGER_OBJ then
            (case (l, r) of
               (Integer p leftValue, Integer q rightValue) \<Rightarrow>
                 evalIntegerInfixExpression leftValue rightValue operator st
             | _ \<Rightarrow> Inl TypeAssertion)
          else if operator = EQ then
            Inr (nativeBoolToBooleanObject (interface_eq left right), st)
          else if operator = NOT_EQ then
            Inr (nativeBoolToBooleanObject (\<not> interface_eq left right), st)
          else Inr (newError (''unknown operator: '' @ Type l @ '' '' @ operator @ '' ''
                                @ Type r) st)
      | _ \<Rightarrow> Inl NilDereference)"

definition evalMinusPrefixOperator :: "object option \<Rightarrow> state \<Rightarrow> object result" where
  "evalMinusPrefixOperator o' st =
     (case o' of
        None \<Rightarrow> Inl NilDereference
      | Some x \<Rightarrow>
          if Type x \<noteq> INTEGER_OBJ then
            Inr (newError (''unknown operator: '' @ MINUS @ Type x) st)
          else (case x of Integer p v \<Rightarrow> Inr (new_Integer (- v) st)
                | _ \<Rightarrow> Inl TypeAssertion))"

definition evalPrefixExpression :: "string \<Rightarrow> object option \<Rightarrow> state \<Rightarrow> object result" where
  "evalPrefixExpression operator obj st =
     (if operator = BANG then Inr (evalBangOperator obj, st)
      else if operator = MINUS then evalMinusPrefixOperator obj st
      else (case obj of
              None \<Rightarrow> Inl NilDereference
            | Some x \<Rightarrow> Inr (newError (''unknown operator: '' @ operator @ Type x) st)))"

text \<open>
  The operator functions and the constructors return an object that is never \<open>nil\<close>;
  \<open>as_interface\<close> passes such a result on as the interface value \<open>Eval\<close> returns.
\<close>

definition as_interface :: "object result \<Rightarrow> object option result" where
  "as_interface r = (case r of Inl p \<Rightarrow> Inl p | Inr (x, st) \<Rightarrow> Inr (Some x, st))"

text \<open>
  \<open>Eval\<close> and the functions it is mutually recursive with. The two loops over the
  statements carry the local variable \<open>result\<close>, which is \<open>nil\<close> before the first
  iteration. \<open>evalIfExpression\<close> takes the three fields of the node it is given.
\<close>

function (sequential)
  Eval :: "node \<Rightarrow> state \<Rightarrow> object option result" and
  evalIfExpression :: "node \<Rightarrow> node \<Rightarrow> node option \<Rightarrow> state \<Rightarrow> object option result" and
  evalBlockStatement :: "node list \<Rightarrow> state \<Rightarrow> object option result" and
  evalBlockStatement_loop ::
    "node list \<Rightarrow> object option \<Rightarrow> state \<Rightarrow> object option result" and
  evalProgram :: "node list \<Rightarrow> state \<Rightarrow> object option result" and
  evalProgram_loop ::
    "node list \<Rightarrow> object option \<Rightarrow> state \<Rightarrow> object option result"
where
  "Eval (Program statements) st = evalProgram statements st"
| "Eval (BlockStatement statements) st = evalBlockStatement statements st"
| "Eval (ExpressionStatement expression) st = Eval expression st"
| "Eval (IntegerLiteral v) st = as_interface (Inr (new_Integer v st))"
| "Eval (BooleanLiteral b) st = Inr (Some (nativeBoolToBooleanObject b), st)"
| "Eval (PrefixExpression operator right) st =
     (case Eval right st of
        Inl p \<Rightarrow> Inl p
      | Inr (r, st1) \<Rightarrow>
          if isError r then Inr (r, st1)
          else as_interface (evalPrefixExpression operator r st1))"
| "Eval (IfExpression condition consequence alternative) st =
     evalIfExpression condition consequence alternative st"
| "Eval (InfixExpression left operator right) st =
     (case Eval left st of
        Inl p \<Rightarrow> Inl p
      | Inr (l, st1) \<Rightarrow>
          if isError l then Inr (l, st1)
          else (case Eval right st1 of
                  Inl p \<Rightarrow> Inl p
                | Inr (r, st2) \<Rightarrow>
                    if isError r then Inr (r, st2)
                    else as_interface (evalInfixExpression l r operator st2)))"
| "Eval (ReturnStatement returnValue) st =
     (case Eval returnValue st of
        Inl p \<Rightarrow> Inl p
      | Inr (val, st1) \<Rightarrow>
          if isError val then Inr (val, st1)
          else as_interface (Inr (new_ReturnValue val st1)))"
| "Eval (LetStatement name v) st =
     (case Eval v st of
        Inl p \<Rightarrow> Inl p
      | Inr (val, st1) \<Rightarrow>
          if isError val then Inr (val, st1)
          else Inr (None, st1\<lparr>env := Set (env st1) name val\<rparr>))"
| "Eval (Identifier name) st =
     (case Get (env st) name of
        (val, ok) \<Rightarrow>
          if \<not> ok then as_interface (Inr (newError (''identifier not found: '' @ name) st))
          else Inr (val, st))"
| "Eval OtherNode st = Inr (None, st)"
| "evalIfExpression condition consequence alternative st =
     (case Eval condition st of
        Inl p \<Rightarrow> Inl p
      | Inr (cond, st1) \<Rightarrow>
          if isTruthy cond then Eval consequence st1
          else (case alternative of
                  Some alt \<Rightarrow> Eval alt st1
                | None \<Rightarrow> Inr (Some NULL, st1)))"
| "evalBlockStatement statements st = evalBlockStatement_loop statements None st"
| "evalBlockStatement_loop [] result st = Inr (result, st)"
| "evalBlockStatement_loop (statement # rest) result st =
     (case Eval statement st of
        Inl p \<Rightarrow> Inl p
      | Inr (res, st1) \<Rightarrow>
          (case res of
             Some x \<Rightarrow>
               if Type x = RETURN_VALUE_OBJ \<or> Type x = ERROR_OBJ then Inr (res, st1)
               else evalBlockStatement_loop rest res st1
           | None \<Rightarrow> evalBlockStatement_loop rest res st1))"
| "evalProgram statements st = evalProgram_loop statements None st"
| "evalProgram_loop [] result st = Inr (result, st)"
| "evalProgram_loop (statement # rest) result st =
     (case Eval statement st of
        Inl p \<Rightarrow> Inl p
      | Inr (res, st1) \<Rightarrow>
          (case res of
             Some (ReturnValue a v) \<Rightarrow> Inr (v, st1)
           | Some (Error a m) \<Rightarrow> Inr (res, st1)
           | _ \<Rightarrow> evalProgram_loop rest res st1))"
  by pat_completeness auto

termination
  by (relation "measure (\<lambda>x. case x of
        Inl (Inl (n, st)) \<Rightarrow> 3 * size n + 2
      | Inl (Inr (Inl (c, t, e, st))) \<Rightarrow> 3 * (size c + size t + size_option size e + 1) + 1
      | Inl (Inr (Inr (ss, st))) \<Rightarrow> 3 * size_list size ss + 1
      | Inr (Inl (ss, r, st)) \<Rightarrow> 3 * size_list size ss
      | Inr (Inr (Inl (ss, st))) \<Rightarrow> 3 * size_list size ss + 1
      | Inr (Inr (Inr (ss, r, st))) \<Rightarrow> 3 * size_list size ss)")
    simp_all

text \<open>
  Whether a let statement occurs somewhere in a node: only such nodes can change the
  environment (\<open>env.Set\<close> is called in the \<open>LetStatement\<close> case of \<open>Eval\<close> and nowhere else).
\<close>

fun contains_let :: "node \<Rightarrow> bool" where
  "contains_let (Program statements) = (\<exists>s \<in> set statements. contains_let s)"
| "contains_let (BlockStatement statements) = (\<exists>s \<in> set statements. contains_let s)"
| "contains_let (ExpressionStatement expression) = contains_let expression"
| "contains_let (IntegerLiteral v) = False"
| "contains_let (BooleanLiteral b) = False"
| "contains_let (PrefixExpression operator right) = contains_let right"
| "contains_let (IfExpression condition consequence alternative) =
     (contains_let condition \<or> contains_let consequence \<or>
      (case alternative of Some alt \<Rightarrow> contains_let alt | None \<Rightarrow> False))"
| "contains_let (InfixExpression left operator right) = (contains_let left \<or> contains_let right)"
| "contains_let (ReturnStatement returnValue) = contains_let returnValue"
| "contains_let (LetStatement name v) = True"
| "contains_let (Identifier name) = False"
| "contains_let OtherNode = False"

section \<open>Basic facts\<close>

lemmas token_defs =
  PLUS_def MINUS_def ASTERISK_def SLASH_def EQ_def NOT_EQ_def LT_def GT_def BANG_def

lemmas tag_defs =
  INTEGER_OBJ_def BOOLEAN_OBJ_def NULL_OBJ_def RETURN_VALUE_OBJ_def ERROR_OBJ_def

lemmas singleton_defs = TRUE_def FALSE_def NULL_def

lemma singletons_distinct:
  "TRUE \<noteq> FALSE" "FALSE \<noteq> TRUE" "TRUE \<noteq> NULL" "NULL \<noteq> TRUE"
  "FALSE \<noteq> NULL" "NULL \<noteq> FALSE"
  by (simp_all add: singleton_defs)

lemma interface_eq_TRUE: "interface_eq x (Some TRUE) \<longleftrightarrow> x = Some TRUE"
proof (cases x)
  case None
  then show ?thesis by simp
next
  case (Some y)
  then show ?thesis by (cases y) (simp_all add: TRUE_def)
qed

lemma interface_eq_FALSE: "interface_eq x (Some FALSE) \<longleftrightarrow> x = Some FALSE"
proof (cases x)
  case None
  then show ?thesis by simp
next
  case (Some y)
  then show ?thesis by (cases y) (simp_all add: FALSE_def)
qed

lemma interface_eq_NULL: "interface_eq x (Some NULL) \<longleftrightarrow> x = Some NULL"
proof (cases x)
  case None
  then show ?thesis by simp
next
  case (Some y)
  then show ?thesis by (cases y) (simp_all add: NULL_def)
qed

lemma isTruthy_iff: "isTruthy obj \<longleftrightarrow> obj \<noteq> Some NULL \<and> obj \<noteq> Some FALSE"
  by (auto simp: isTruthy_def interface_eq_TRUE interface_eq_FALSE interface_eq_NULL
      singletons_distinct)

lemma evalBangOperator_eq:
  "evalBangOperator r =
     (if r = Some TRUE then FALSE else if r = Some FALSE then TRUE
      else if r = Some NULL then TRUE else FALSE)"
  by (simp add: evalBangOperator_def interface_eq_TRUE interface_eq_FALSE interface_eq_NULL)

section \<open>Truthiness and conditionals\<close>

text \<open>
  C7. The canonical Null and the canonical FALSE are falsy, every other object is truthy
  (every Integer, zero included, and TRUE). In an IfExpression whose condition has been
  evaluated, a truthy condition selects the consequence, a falsy one the alternative when
  there is one, and the canonical Null when there is none.
\<close>

theorem if_expression_truthiness:
  "(\<forall>obj. isTruthy obj \<longleftrightarrow> obj \<noteq> Some NULL \<and> obj \<noteq> Some FALSE)
   \<and> (\<forall>a v. isTruthy (Some (Integer a v))) \<and> isTruthy (Some TRUE)
   \<and> (\<forall>condition consequence alternative st cond st1.
        Eval condition st = Inr (cond, st1) \<longrightarrow>
        Eval (IfExpression condition consequence alternative) st =
          (if isTruthy cond then Eval consequence st1
           else case alternative of
                  Some alt \<Rightarrow> Eval alt st1
                | None \<Rightarrow> Inr (Some NULL, st1)))"
  by (simp add: isTruthy_iff singleton_defs)

theorem if_expression_truthiness_witness:
  "Eval (BooleanLiteral False) \<lparr>env = Map.empty, allocs = 0\<rparr>
     = Inr (Some FALSE, \<lparr>env = Map.empty, allocs = 0\<rparr>)
   \<and> \<not> isTruthy (Some FALSE)
   \<and> Eval (IfExpression (BooleanLiteral False)
             (BlockStatement [ExpressionStatement (IntegerLiteral 10)])
             (Some (BlockStatement [ExpressionStatement (IntegerLiteral 20)])))
        \<lparr>env = Map.empty, allocs = 0\<rparr>
     = Inr (Some (Integer 0 20), \<lparr>env = Map.empty, allocs = 1\<rparr>)"
  using if_expression_truthiness [THEN conjunct2, THEN conjunct2, THEN conjunct2, rule_format,
      of "BooleanLiteral False" "\<lparr>env = Map.empty, allocs = 0\<rparr>" "Some FALSE"
         "\<lparr>env = Map.empty, allocs = 0\<rparr>"
         "BlockStatement [ExpressionStatement (IntegerLiteral 10)]"
         "Some (BlockStatement [ExpressionStatement (IntegerLiteral 20)])"]
  by (simp add: nativeBoolToBooleanObject_def isTruthy_iff singletons_distinct
      as_interface_def new_Integer_def tag_defs)

section \<open>Prefix operators\<close>

text \<open>
  C8. For a logical negation whose operand has been evaluated to something that is not
  an Error, the result is FALSE for the operand TRUE, TRUE for FALSE, TRUE for Null and
  FALSE for every other operand; \<open>!5\<close> is FALSE and \<open>!!true\<close> is TRUE.
\<close>

theorem bang_operator:
  "(\<forall>right st r st1. Eval right st = Inr (r, st1) \<and> \<not> isError r \<longrightarrow>
      Eval (PrefixExpression BANG right) st =
        Inr (Some (if r = Some TRUE then FALSE else if r = Some FALSE then TRUE
                   else if r = Some NULL then TRUE else FALSE), st1))
   \<and> (\<forall>st. Eval (PrefixExpression BANG (IntegerLiteral 5)) st =
          Inr (Some FALSE, st\<lparr>allocs := allocs st + 1\<rparr>))
   \<and> (\<forall>st. Eval (PrefixExpression BANG (PrefixExpression BANG (BooleanLiteral True))) st =
          Inr (Some TRUE, st))"
  by (simp add: evalPrefixExpression_def as_interface_def evalBangOperator_eq new_Integer_def
      isError_def nativeBoolToBooleanObject_def singleton_defs tag_defs)

theorem bang_operator_witness:
  "Eval (BooleanLiteral False) \<lparr>env = Map.empty, allocs = 0\<rparr>
     = Inr (Some FALSE, \<lparr>env = Map.empty, allocs = 0\<rparr>)
   \<and> \<not> isError (Some FALSE)
   \<and> Eval (PrefixExpression BANG (BooleanLiteral False)) \<lparr>env = Map.empty, allocs = 0\<rparr>
     = Inr (Some TRUE, \<lparr>env = Map.empty, allocs = 0\<rparr>)"
  using bang_operator [THEN conjunct1, rule_format,
      of "BooleanLiteral False" "\<lparr>env = Map.empty, allocs = 0\<rparr>" "Some FALSE"
         "\<lparr>env = Map.empty, allocs = 0\<rparr>"]
  by (simp add: nativeBoolToBooleanObject_def isError_def singleton_defs tag_defs)

section \<open>Infix operators on operands of different or of equal non-Integer type\<close>


text \<open>
  C5. When the two operands of an infix expression evaluate to objects (neither of them
  an Error) with different type tags, the result is an Error whose message is
  \<open>type mismatch: <LEFT_TYPE> + <RIGHT_TYPE>\<close>, with the symbol \<open>+\<close> whatever the operator
  is; \<open>5 + true\<close> yields \<open>type mismatch: INTEGER + BOOLEAN\<close>.
\<close>

theorem type_mismatch:
  "(\<forall>l r operator st. Type l \<noteq> Type r \<longrightarrow>
      evalInfixExpression (Some l) (Some r) operator st =
        Inr (Error (allocs st) (''type mismatch: '' @ Type l @ '' + '' @ Type r),
             st\<lparr>allocs := allocs st + 1\<rparr>))
   \<and> (\<forall>left right operator st l st1 r st2.
        Eval left st = Inr (Some l, st1) \<and> \<not> isError (Some l) \<and>
        Eval right st1 = Inr (Some r, st2) \<and> \<not> isError (Some r) \<and> Type l \<noteq> Type r \<longrightarrow>
        Eval (InfixExpression left operator right) st =
          Inr (Some (Error (allocs st2) (''type mismatch: '' @ Type l @ '' + '' @ Type r)),
               st2\<lparr>allocs := allocs st2 + 1\<rparr>))
   \<and> (\<forall>st. Eval (InfixExpression (IntegerLiteral 5) PLUS (BooleanLiteral True)) st =
          Inr (Some (Error (allocs st + 1) ''type mismatch: INTEGER + BOOLEAN''),
               st\<lparr>allocs := allocs st + 2\<rparr>))"
  by (simp add: evalInfixExpression_def newError_def as_interface_def new_Integer_def
      isError_def nativeBoolToBooleanObject_def singleton_defs tag_defs)

theorem type_mismatch_witness:
  "Type (Boolean True) \<noteq> Type (Integer 7 3)
   \<and> evalInfixExpression (Some (Boolean True)) (Some (Integer 7 3)) ''<''
        \<lparr>env = Map.empty, allocs = 8\<rparr>
      = Inr (Error 8 ''type mismatch: BOOLEAN + INTEGER'', \<lparr>env = Map.empty, allocs = 9\<rparr>)
   \<and> Eval (IntegerLiteral 5) \<lparr>env = Map.empty, allocs = 0\<rparr>
      = Inr (Some (Integer 0 5), \<lparr>env = Map.empty, allocs = 1\<rparr>)
   \<and> \<not> isError (Some (Integer 0 5))
   \<and> Eval (BooleanLiteral True) \<lparr>env = Map.empty, allocs = 1\<rparr>
      = Inr (Some (Boolean True), \<lparr>env = Map.empty, allocs = 1\<rparr>)
   \<and> \<not> isError (Some (Boolean True))
   \<and> Type (Integer 0 5) \<noteq> Type (Boolean True)
   \<and> Eval (InfixExpression (IntegerLiteral 5) ''=='' (BooleanLiteral True))
        \<lparr>env = Map.empty, allocs = 0\<rparr>
      = Inr (Some (Error 1 ''type mismatch: INTEGER + BOOLEAN''),
             \<lparr>env = Map.empty, allocs = 2\<rparr>)"
  using type_mismatch [THEN conjunct1, rule_format, of "Boolean True" "Integer 7 3" "''<''"
      "\<lparr>env = Map.empty, allocs = 8\<rparr>"]
    type_mismatch [THEN conjunct2, THEN conjunct1, rule_format,
      where left = "IntegerLiteral 5" and right = "BooleanLiteral True"
        and operator = "''==''" and st = "\<lparr>env = Map.empty, allocs = 0\<rparr>"
        and l = "Integer 0 5" and ?st1.0 = "\<lparr>env = Map.empty, allocs = 1\<rparr>"
        and r = "Boolean True" and ?st2.0 = "\<lparr>env = Map.empty, allocs = 1\<rparr>"]
  by (simp add: tag_defs isError_def as_interface_def new_Integer_def
      nativeBoolToBooleanObject_def singleton_defs)



section \<open>Sequences of statements\<close>

lemma evalProgram_loop_overwrites:
  "rest \<noteq> [] \<Longrightarrow> evalProgram_loop rest r st = evalProgram_loop rest None st"
  by (cases rest) simp_all

lemma evalBlockStatement_loop_overwrites:
  "rest \<noteq> [] \<Longrightarrow> evalBlockStatement_loop rest r st = evalBlockStatement_loop rest None st"
  by (cases rest) simp_all

lemma not_stopping_cases:
  assumes "\<forall>a v. res \<noteq> Some (ReturnValue a v)" and "\<forall>a m. res \<noteq> Some (Error a m)"
  shows "(case res of Some (ReturnValue a v) \<Rightarrow> f a v | Some (Error a m) \<Rightarrow> g a m | _ \<Rightarrow> h) = h"
  using assms by (auto split: option.splits object.splits)

text \<open>
  C2. A Program evaluates its statements in order, each in the state (environment and
  heap) the one before has left. A statement whose result is a ReturnValue ends the
  evaluation with the wrapped value, whatever statements follow; one whose result is an
  Error ends it with that Error; after any other result the evaluation goes on with the
  remaining statements, and the result of the last statement is the result of the
  program. The program \<open>1; return 2; ...\<close> yields the Integer 2 allocated for the literal,
  whatever follows the return statement.
\<close>

theorem program_statements:
  "(\<forall>statement rest st a v st1.
      Eval statement st = Inr (Some (ReturnValue a v), st1) \<longrightarrow>
      Eval (Program (statement # rest)) st = Inr (v, st1))
   \<and> (\<forall>statement rest st a m st1.
      Eval statement st = Inr (Some (Error a m), st1) \<longrightarrow>
      Eval (Program (statement # rest)) st = Inr (Some (Error a m), st1))
   \<and> (\<forall>statement rest st res st1.
      Eval statement st = Inr (res, st1) \<and>
      (\<forall>a v. res \<noteq> Some (ReturnValue a v)) \<and> (\<forall>a m. res \<noteq> Some (Error a m)) \<longrightarrow>
      Eval (Program (statement # rest)) st =
        (if rest = [] then Inr (res, st1) else Eval (Program rest) st1))
   \<and> (\<forall>rest st.
      Eval (Program (ExpressionStatement (IntegerLiteral 1) # ReturnStatement (IntegerLiteral 2)
                      # rest)) st =
        Inr (Some (Integer (allocs st + 1) 2), st\<lparr>allocs := allocs st + 3\<rparr>))"
proof (intro conjI allI impI)
  fix statement rest st res st1
  assume a: "Eval statement st = Inr (res, st1) \<and>
      (\<forall>a v. res \<noteq> Some (ReturnValue a v)) \<and> (\<forall>a m. res \<noteq> Some (Error a m))"
  then have "Eval (Program (statement # rest)) st = evalProgram_loop rest res st1"
    by (simp add: not_stopping_cases)
  then show "Eval (Program (statement # rest)) st =
        (if rest = [] then Inr (res, st1) else Eval (Program rest) st1)"
    by (simp add: evalProgram_loop_overwrites [of rest res])
qed (simp_all add: as_interface_def new_Integer_def new_ReturnValue_def isError_def tag_defs)

theorem program_statements_witness:
  "Eval (ReturnStatement (IntegerLiteral 2)) \<lparr>env = Map.empty, allocs = 0\<rparr>
     = Inr (Some (ReturnValue 1 (Some (Integer 0 2))), \<lparr>env = Map.empty, allocs = 2\<rparr>)
   \<and> Eval (Program [ReturnStatement (IntegerLiteral 2), ExpressionStatement (Identifier ''y'')])
        \<lparr>env = Map.empty, allocs = 0\<rparr>
     = Inr (Some (Integer 0 2), \<lparr>env = Map.empty, allocs = 2\<rparr>)
   \<and> Eval (ExpressionStatement (Identifier ''y'')) \<lparr>env = Map.empty, allocs = 0\<rparr>
     = Inr (Some (Error 0 ''identifier not found: y''), \<lparr>env = Map.empty, allocs = 1\<rparr>)
   \<and> Eval (Program [ExpressionStatement (Identifier ''y''), ExpressionStatement (IntegerLiteral 3)])
        \<lparr>env = Map.empty, allocs = 0\<rparr>
     = Inr (Some (Error 0 ''identifier not found: y''), \<lparr>env = Map.empty, allocs = 1\<rparr>)
   \<and> Eval (LetStatement ''x'' (IntegerLiteral 5)) \<lparr>env = Map.empty, allocs = 0\<rparr>
     = Inr (None, \<lparr>env = [''x'' \<mapsto> Some (Integer 0 5)], allocs = 1\<rparr>)
   \<and> Eval (Program [LetStatement ''x'' (IntegerLiteral 5), ExpressionStatement (Identifier ''x'')])
        \<lparr>env = Map.empty, allocs = 0\<rparr>
     = Inr (Some (Integer 0 5), \<lparr>env = [''x'' \<mapsto> Some (Integer 0 5)], allocs = 1\<rparr>)"
  using program_statements [THEN conjunct1, rule_format,
      where statement = "ReturnStatement (IntegerLiteral 2)"
        and rest = "[ExpressionStatement (Identifier ''y'')]"
        and st = "\<lparr>env = Map.empty, allocs = 0\<rparr>"
        and a = 1 and v = "Some (Integer 0 2)"
        and ?st1.0 = "\<lparr>env = Map.empty, allocs = 2\<rparr>"]
    program_statements [THEN conjunct2, THEN conjunct1, rule_format,
      where statement = "ExpressionStatement (Identifier ''y'')"
        and rest = "[ExpressionStatement (IntegerLiteral 3)]"
        and st = "\<lparr>env = Map.empty, allocs = 0\<rparr>"
        and a = 0 and m = "''identifier not found: y''"
        and ?st1.0 = "\<lparr>env = Map.empty, allocs = 1\<rparr>"]
    program_statements [THEN conjunct2, THEN conjunct2, THEN conjunct1, rule_format,
      where statement = "LetStatement ''x'' (IntegerLiteral 5)"
        and rest = "[ExpressionStatement (Identifier ''x'')]"
        and st = "\<lparr>env = Map.empty, allocs = 0\<rparr>"
        and res = None
        and ?st1.0 = "\<lparr>env = [''x'' \<mapsto> Some (Integer 0 5)], allocs = 1\<rparr>"]
  by (simp add: as_interface_def new_Integer_def new_ReturnValue_def newError_def isError_def
      Get_def Set_def tag_defs)

text \<open>
  C3. A Block evaluates its statements in order. The first statement whose result is a
  ReturnValue or an Error ends the evaluation with that very object, the ReturnValue
  still wrapped; after any other result the evaluation goes on, and the result of the
  last statement is the result of the block. The block \<open>{ 1; return 2; ... }\<close> yields the
  ReturnValue that wraps the Integer 2.
\<close>

theorem block_statements:
  "(\<forall>statement rest st x st1.
      Eval statement st = Inr (Some x, st1) \<and>
      (Type x = RETURN_VALUE_OBJ \<or> Type x = ERROR_OBJ) \<longrightarrow>
      Eval (BlockStatement (statement # rest)) st = Inr (Some x, st1))
   \<and> (\<forall>statement rest st res st1.
      Eval statement st = Inr (res, st1) \<and>
      (\<forall>x. res = Some x \<longrightarrow> Type x \<noteq> RETURN_VALUE_OBJ \<and> Type x \<noteq> ERROR_OBJ) \<longrightarrow>
      Eval (BlockStatement (statement # rest)) st =
        (if rest = [] then Inr (res, st1) else Eval (BlockStatement rest) st1))
   \<and> (\<forall>rest st.
      Eval (BlockStatement (ExpressionStatement (IntegerLiteral 1)
                             # ReturnStatement (IntegerLiteral 2) # rest)) st =
        Inr (Some (ReturnValue (allocs st + 2) (Some (Integer (allocs st + 1) 2))),
             st\<lparr>allocs := allocs st + 3\<rparr>))"
proof (intro conjI allI impI)
  fix statement rest st res st1
  assume a: "Eval statement st = Inr (res, st1) \<and>
      (\<forall>x. res = Some x \<longrightarrow> Type x \<noteq> RETURN_VALUE_OBJ \<and> Type x \<noteq> ERROR_OBJ)"
  then have "Eval (BlockStatement (statement # rest)) st = evalBlockStatement_loop rest res st1"
    by (cases res) simp_all
  then show "Eval (BlockStatement (statement # rest)) st =
        (if rest = [] then Inr (res, st1) else Eval (BlockStatement rest) st1)"
    by (simp add: evalBlockStatement_loop_overwrites [of rest res])
next
  fix statement rest st x st1
  assume "Eval statement st = Inr (Some x, st1) \<and>
      (Type x = RETURN_VALUE_OBJ \<or> Type x = ERROR_OBJ)"
  then show "Eval (BlockStatement (statement # rest)) st = Inr (Some x, st1)"
    by auto
qed (simp_all add: as_interface_def new_Integer_def new_ReturnValue_def isError_def tag_defs)

theorem block_statements_witness:
  "Eval (ReturnStatement (IntegerLiteral 2)) \<lparr>env = Map.empty, allocs = 0\<rparr>
     = Inr (Some (ReturnValue 1 (Some (Integer 0 2))), \<lparr>env = Map.empty, allocs = 2\<rparr>)
   \<and> Type (ReturnValue 1 (Some (Integer 0 2))) = RETURN_VALUE_OBJ
   \<and> Eval (BlockStatement [ReturnStatement (IntegerLiteral 2),
                            ExpressionStatement (Identifier ''y'')])
        \<lparr>env = Map.empty, allocs = 0\<rparr>
     = Inr (Some (ReturnValue 1 (Some (Integer 0 2))), \<lparr>env = Map.empty, allocs = 2\<rparr>)
   \<and> Eval (LetStatement ''x'' (IntegerLiteral 5)) \<lparr>env = Map.empty, allocs = 0\<rparr>
     = Inr (None, \<lparr>env = [''x'' \<mapsto> Some (Integer 0 5)], allocs = 1\<rparr>)
   \<and> Eval (BlockStatement [LetStatement ''x'' (IntegerLiteral 5),
                            ExpressionStatement (Identifier ''x'')])
        \<lparr>env = Map.empty, allocs = 0\<rparr>
     = Inr (Some (Integer 0 5), \<lparr>env = [''x'' \<mapsto> Some (Integer 0 5)], allocs = 1\<rparr>)"
  using block_statements [THEN conjunct1, rule_format,
      where statement = "ReturnStatement (IntegerLiteral 2)"
        and rest = "[ExpressionStatement (Identifier ''y'')]"
        and st = "\<lparr>env = Map.empty, allocs = 0\<rparr>"
        and x = "ReturnValue 1 (Some (Integer 0 2))"
        and ?st1.0 = "\<lparr>env = Map.empty, allocs = 2\<rparr>"]
    block_statements [THEN conjunct2, THEN conjunct1, rule_format,
      where statement = "LetStatement ''x'' (IntegerLiteral 5)"
        and rest = "[ExpressionStatement (Identifier ''x'')]"
        and st = "\<lparr>env = Map.empty, allocs = 0\<rparr>"
        and res = None
        and ?st1.0 = "\<lparr>env = [''x'' \<mapsto> Some (Integer 0 5)], allocs = 1\<rparr>"]
  by (simp add: as_interface_def new_Integer_def new_ReturnValue_def isError_def
      Get_def Set_def tag_defs)

section \<open>Integer arithmetic\<close>

lemma wrap63: "signed_take_bit 63 (k::int) = (k + 2 ^ 63) mod 2 ^ 64 - 2 ^ 63"
  by (simp add: signed_take_bit_eq_take_bit_shift take_bit_eq_mod)

lemma sint_add64: "sint (a + b :: int64) = (sint a + sint b + 2 ^ 63) mod 2 ^ 64 - 2 ^ 63"
  by (simp add: sint_word_ariths wrap63)

lemma sint_diff64: "sint (a - b :: int64) = (sint a - sint b + 2 ^ 63) mod 2 ^ 64 - 2 ^ 63"
  by (simp add: sint_word_ariths wrap63)

lemma sint_mult64: "sint (a * b :: int64) = (sint a * sint b + 2 ^ 63) mod 2 ^ 64 - 2 ^ 63"
  by (simp add: sint_word_ariths wrap63)

lemma sint_minus64: "sint (- a :: int64) = (- sint a + 2 ^ 63) mod 2 ^ 64 - 2 ^ 63"
  by (simp add: sint_word_ariths wrap63)

lemma sint_quo64:
  "sint (int64_quo a b) = (sint a sdiv sint b + 2 ^ 63) mod 2 ^ 64 - 2 ^ 63"
  by (simp add: int64_quo_def sint_sbintrunc' wrap63)

lemma wrap_in_range:
  "- (2 ^ 63) \<le> (k::int) \<Longrightarrow> k < 2 ^ 63 \<Longrightarrow> (k + 2 ^ 63) mod 2 ^ 64 - 2 ^ 63 = k"
  by (simp add: mod_pos_pos_trivial)

lemma sint64_bounds: "- (2 ^ 63) \<le> sint (a :: int64)" "sint (a :: int64) < 2 ^ 63"
  using sint_ge [of a] sint_lt [of a] by simp_all

lemma sint64_eq_iff: "(a :: int64) = b \<longleftrightarrow> sint a = sint b"
  by (auto intro: signed_word_eqI)

lemma sint64_zero_iff: "(b :: int64) = 0 \<longleftrightarrow> sint b = 0"
  using sint64_eq_iff [of b 0] by simp

lemma sdiv_abs_le: "\<bar>(k::int) sdiv l\<bar> \<le> \<bar>k\<bar> div \<bar>l\<bar>"
proof -
  have q: "0 \<le> \<bar>k\<bar> div \<bar>l\<bar>"
    by (simp add: div_int_pos_iff)
  have "\<bar>k sdiv l\<bar> = \<bar>sgn k\<bar> * \<bar>sgn l\<bar> * \<bar>\<bar>k\<bar> div \<bar>l\<bar>\<bar>"
    by (simp add: signed_divide_int_def abs_mult)
  also have "\<dots> = \<bar>sgn k\<bar> * \<bar>sgn l\<bar> * (\<bar>k\<bar> div \<bar>l\<bar>)"
    using q by simp
  also have "\<dots> \<le> 1 * 1 * (\<bar>k\<bar> div \<bar>l\<bar>)"
    using q by (intro mult_right_mono mult_mono) (simp_all add: sgn_if)
  finally show ?thesis by simp
qed

lemma sdiv_in_range:
  fixes k l :: int
  assumes k: "- (2 ^ 63) \<le> k" "k < 2 ^ 63" and l: "l \<noteq> 0"
    and ex: "\<not> (k = - (2 ^ 63) \<and> l = - 1)"
  shows "- (2 ^ 63) \<le> k sdiv l \<and> k sdiv l < 2 ^ 63"
proof -
  consider "l = 1" | "l = - 1" | "2 \<le> \<bar>l\<bar>"
    using l by linarith
  then show ?thesis
  proof cases
    case 1
    with k show ?thesis by simp
  next
    case 2
    with k ex show ?thesis by simp
  next
    case 3
    have "\<bar>k sdiv l\<bar> \<le> \<bar>k\<bar> div \<bar>l\<bar>"
      by (rule sdiv_abs_le)
    also have "\<dots> \<le> \<bar>k\<bar> div 2"
      using 3 by (intro zdiv_mono2) simp_all
    also have "\<dots> \<le> 2 ^ 63 div 2"
      using k by (intro zdiv_mono1) simp_all
    finally have "\<bar>k sdiv l\<bar> \<le> 2 ^ 62"
      by simp
    then show ?thesis by (simp add: abs_le_iff)
  qed
qed

lemma eval_integer_operands:
  assumes "Eval left st = Inr (Some (Integer p a), st1)"
    and "Eval right st1 = Inr (Some (Integer q b), st2)"
  shows "Eval (InfixExpression left operator right) st =
           as_interface (evalIntegerInfixExpression a b operator st2)"
  using assms by (simp add: isError_def evalInfixExpression_def tag_defs)

text \<open>
  C4, as the code has it. For 64-bit integers \<open>a\<close> and \<open>b\<close>, the infix expressions
  \<open>a + b\<close>, \<open>a - b\<close> and \<open>a * b\<close> yield a new Integer equal to the exact result whenever
  that result lies in the signed 64-bit range; for \<open>b \<noteq> 0\<close>, \<open>a / b\<close> yields the exact
  quotient truncated towards zero in every case but that of the least integer divided by
  \<open>-1\<close>; \<open>==\<close>, \<open>!=\<close>, \<open><\<close> and \<open>>\<close> compare the two signed values and return the
  canonical TRUE or FALSE. The last part links the function to infix expressions whose
  operands evaluate to Integers.
\<close>

theorem integer_infix_exact:
  "(\<forall>a b st. - (2 ^ 63) \<le> sint a + sint b \<and> sint a + sint b < 2 ^ 63 \<longrightarrow>
      evalIntegerInfixExpression a b PLUS st =
        Inr (Integer (allocs st) (a + b), st\<lparr>allocs := allocs st + 1\<rparr>)
      \<and> sint (a + b) = sint a + sint b)
   \<and> (\<forall>a b st. - (2 ^ 63) \<le> sint a - sint b \<and> sint a - sint b < 2 ^ 63 \<longrightarrow>
      evalIntegerInfixExpression a b MINUS st =
        Inr (Integer (allocs st) (a - b), st\<lparr>allocs := allocs st + 1\<rparr>)
      \<and> sint (a - b) = sint a - sint b)
   \<and> (\<forall>a b st. - (2 ^ 63) \<le> sint a * sint b \<and> sint a * sint b < 2 ^ 63 \<longrightarrow>
      evalIntegerInfixExpression a b ASTERISK st =
        Inr (Integer (allocs st) (a * b), st\<lparr>allocs := allocs st + 1\<rparr>)
      \<and> sint (a * b) = sint a * sint b)
   \<and> (\<forall>a b st. b \<noteq> 0 \<and> \<not> (sint a = - (2 ^ 63) \<and> sint b = - 1) \<longrightarrow>
      evalIntegerInfixExpression a b SLASH st =
        Inr (Integer (allocs st) (int64_quo a b), st\<lparr>allocs := allocs st + 1\<rparr>)
      \<and> sint (int64_quo a b) = sgn (sint a) * sgn (sint b) * (\<bar>sint a\<bar> div \<bar>sint b\<bar>))
   \<and> (\<forall>a b st. evalIntegerInfixExpression a b EQ st =
        Inr (if sint a = sint b then TRUE else FALSE, st))
   \<and> (\<forall>a b st. evalIntegerInfixExpression a b NOT_EQ st =
        Inr (if sint a \<noteq> sint b then TRUE else FALSE, st))
   \<and> (\<forall>a b st. evalIntegerInfixExpression a b LT st =
        Inr (if sint a < sint b then TRUE else FALSE, st))
   \<and> (\<forall>a b st. evalIntegerInfixExpression a b GT st =
        Inr (if sint a > sint b then TRUE else FALSE, st))
   \<and> (\<forall>left right operator st p a st1 q b st2.
        Eval left st = Inr (Some (Integer p a), st1) \<and>
        Eval right st1 = Inr (Some (Integer q b), st2) \<longrightarrow>
        Eval (InfixExpression left operator right) st =
          as_interface (evalIntegerInfixExpression a b operator st2))"
proof (intro conjI allI impI)
  fix a b :: int64 and st :: state
  assume "- (2 ^ 63) \<le> sint a + sint b \<and> sint a + sint b < 2 ^ 63"
  then show "sint (a + b) = sint a + sint b"
    by (simp add: sint_add64 wrap_in_range)
next
  fix a b :: int64 and st :: state
  assume "- (2 ^ 63) \<le> sint a - sint b \<and> sint a - sint b < 2 ^ 63"
  then show "sint (a - b) = sint a - sint b"
    by (simp add: sint_diff64 wrap_in_range)
next
  fix a b :: int64 and st :: state
  assume "- (2 ^ 63) \<le> sint a * sint b \<and> sint a * sint b < 2 ^ 63"
  then show "sint (a * b) = sint a * sint b"
    by (simp add: sint_mult64 wrap_in_range)
next
  fix a b :: int64 and st :: state
  assume h: "b \<noteq> 0 \<and> \<not> (sint a = - (2 ^ 63) \<and> sint b = - 1)"
  then show "evalIntegerInfixExpression a b SLASH st =
        Inr (Integer (allocs st) (int64_quo a b), st\<lparr>allocs := allocs st + 1\<rparr>)"
    by (simp add: evalIntegerInfixExpression_def new_Integer_def token_defs)
  from h have "sint b \<noteq> 0"
    by (simp add: sint64_zero_iff)
  with h have "- (2 ^ 63) \<le> sint a sdiv sint b \<and> sint a sdiv sint b < 2 ^ 63"
    by (intro sdiv_in_range sint64_bounds) simp_all
  then have "sint (int64_quo a b) = sint a sdiv sint b"
    by (simp add: sint_quo64 wrap_in_range)
  then show "sint (int64_quo a b) = sgn (sint a) * sgn (sint b) * (\<bar>sint a\<bar> div \<bar>sint b\<bar>)"
    by (simp add: signed_divide_int_def)
next
  fix left right operator st p a st1 q b st2
  assume "Eval left st = Inr (Some (Integer p a), st1) \<and>
        Eval right st1 = Inr (Some (Integer q b), st2)"
  then show "Eval (InfixExpression left operator right) st =
          as_interface (evalIntegerInfixExpression a b operator st2)"
    by (blast intro: eval_integer_operands)
qed (simp_all add: evalIntegerInfixExpression_def new_Integer_def token_defs
      nativeBoolToBooleanObject_def sint64_eq_iff word_sless_alt)

theorem integer_infix_exact_witness:
  "(2 :: int64) \<noteq> 0 \<and> \<not> (sint (- 7 :: int64) = - (2 ^ 63) \<and> sint (2 :: int64) = - 1)
   \<and> evalIntegerInfixExpression (- 7) 2 SLASH \<lparr>env = Map.empty, allocs = 0\<rparr>
      = Inr (Integer 0 (- 3), \<lparr>env = Map.empty, allocs = 1\<rparr>)
   \<and> sint (- 3 :: int64) = - 3
   \<and> - (2 ^ 63) \<le> sint (- 7 :: int64) + sint (2 :: int64)
   \<and> sint (- 7 :: int64) + sint (2 :: int64) < 2 ^ 63
   \<and> evalIntegerInfixExpression (- 7) 2 PLUS \<lparr>env = Map.empty, allocs = 0\<rparr>
      = Inr (Integer 0 (- 5), \<lparr>env = Map.empty, allocs = 1\<rparr>)
   \<and> sint (- 5 :: int64) = - 5
   \<and> - (2 ^ 63) \<le> sint (- 7 :: int64) - sint (2 :: int64)
   \<and> sint (- 7 :: int64) - sint (2 :: int64) < 2 ^ 63
   \<and> evalIntegerInfixExpression (- 7) 2 MINUS \<lparr>env = Map.empty, allocs = 0\<rparr>
      = Inr (Integer 0 (- 9), \<lparr>env = Map.empty, allocs = 1\<rparr>)
   \<and> sint (- 9 :: int64) = - 9
   \<and> - (2 ^ 63) \<le> sint (- 7 :: int64) * sint (2 :: int64)
   \<and> sint (- 7 :: int64) * sint (2 :: int64) < 2 ^ 63
   \<and> evalIntegerInfixExpression (- 7) 2 ASTERISK \<lparr>env = Map.empty, allocs = 0\<rparr>
      = Inr (Integer 0 (- 14), \<lparr>env = Map.empty, allocs = 1\<rparr>)
   \<and> sint (- 14 :: int64) = - 14
   \<and> Eval (InfixExpression (IntegerLiteral 7) SLASH (IntegerLiteral 2))
        \<lparr>env = Map.empty, allocs = 0\<rparr>
      = Inr (Some (Integer 2 3), \<lparr>env = Map.empty, allocs = 3\<rparr>)"
  using integer_infix_exact [THEN conjunct2, THEN conjunct2, THEN conjunct2, THEN conjunct1,
      rule_format, where a = "- 7" and b = 2 and st = "\<lparr>env = Map.empty, allocs = 0\<rparr>"]
    integer_infix_exact [THEN conjunct1,
      rule_format, where a = "- 7" and b = 2 and st = "\<lparr>env = Map.empty, allocs = 0\<rparr>"]
    integer_infix_exact [THEN conjunct2, THEN conjunct1,
      rule_format, where a = "- 7" and b = 2 and st = "\<lparr>env = Map.empty, allocs = 0\<rparr>"]
    integer_infix_exact [THEN conjunct2, THEN conjunct2, THEN conjunct1,
      rule_format, where a = "- 7" and b = 2 and st = "\<lparr>env = Map.empty, allocs = 0\<rparr>"]
    integer_infix_exact [THEN conjunct2, THEN conjunct2, THEN conjunct2, THEN conjunct2,
      THEN conjunct2, THEN conjunct2, THEN conjunct2, THEN conjunct2, rule_format,
      where left = "IntegerLiteral 7" and right = "IntegerLiteral 2" and operator = SLASH
        and st = "\<lparr>env = Map.empty, allocs = 0\<rparr>" and p = 0 and a = 7
        and ?st1.0 = "\<lparr>env = Map.empty, allocs = 1\<rparr>" and q = 1 and b = 2
        and ?st2.0 = "\<lparr>env = Map.empty, allocs = 2\<rparr>"]
  by (simp add: int64_quo_def signed_divide_int_def as_interface_def new_Integer_def
      evalIntegerInfixExpression_def token_defs)

text \<open>
  The claim C4 taken literally fails where the exact result leaves the 64-bit range:
  \<open>9223372036854775807 + 1\<close> yields the Integer \<open>-9223372036854775808\<close>, and the exact
  sum is \<open>9223372036854775808\<close>.
\<close>

theorem integer_addition_overflow:
  "Eval (InfixExpression (IntegerLiteral 9223372036854775807) PLUS (IntegerLiteral 1))
     \<lparr>env = Map.empty, allocs = 0\<rparr>
     = Inr (Some (Integer 2 (- 9223372036854775808)), \<lparr>env = Map.empty, allocs = 3\<rparr>)
   \<and> sint (- 9223372036854775808 :: int64) = - 9223372036854775808
   \<and> sint (9223372036854775807 :: int64) + sint (1 :: int64) = 9223372036854775808"
  by (simp add: as_interface_def new_Integer_def isError_def evalInfixExpression_def
      evalIntegerInfixExpression_def tag_defs token_defs)

text \<open>
  C10. The infix operators \<open>+\<close>, \<open>-\<close>, \<open>*\<close> and the prefix operator \<open>-\<close> always yield an
  Integer, never an Error: the exact result reduced modulo \<open>2 ^ 64\<close> into the signed range
  from \<open>- 2 ^ 63\<close> up to \<open>2 ^ 63 - 1\<close>. The negation of the least 64-bit integer is the least
  64-bit integer.
\<close>

theorem integer_arithmetic_wraps:
  "(\<forall>a b st. evalIntegerInfixExpression a b PLUS st =
        Inr (Integer (allocs st) (a + b), st\<lparr>allocs := allocs st + 1\<rparr>)
      \<and> sint (a + b) = (sint a + sint b + 2 ^ 63) mod 2 ^ 64 - 2 ^ 63)
   \<and> (\<forall>a b st. evalIntegerInfixExpression a b MINUS st =
        Inr (Integer (allocs st) (a - b), st\<lparr>allocs := allocs st + 1\<rparr>)
      \<and> sint (a - b) = (sint a - sint b + 2 ^ 63) mod 2 ^ 64 - 2 ^ 63)
   \<and> (\<forall>a b st. evalIntegerInfixExpression a b ASTERISK st =
        Inr (Integer (allocs st) (a * b), st\<lparr>allocs := allocs st + 1\<rparr>)
      \<and> sint (a * b) = (sint a * sint b + 2 ^ 63) mod 2 ^ 64 - 2 ^ 63)
   \<and> (\<forall>p a st. evalMinusPrefixOperator (Some (Integer p a)) st =
        Inr (Integer (allocs st) (- a), st\<lparr>allocs := allocs st + 1\<rparr>)
      \<and> sint (- a) = (- sint a + 2 ^ 63) mod 2 ^ 64 - 2 ^ 63)
   \<and> (\<forall>p st. evalMinusPrefixOperator (Some (Integer p (- 9223372036854775808))) st =
        Inr (Integer (allocs st) (- 9223372036854775808), st\<lparr>allocs := allocs st + 1\<rparr>))
   \<and> sint (- 9223372036854775808 :: int64) = - (2 ^ 63)
   \<and> (\<forall>right st p a st1. Eval right st = Inr (Some (Integer p a), st1) \<longrightarrow>
        Eval (PrefixExpression MINUS right) st =
          Inr (Some (Integer (allocs st1) (- a)), st1\<lparr>allocs := allocs st1 + 1\<rparr>))"
  by (simp add: evalIntegerInfixExpression_def evalMinusPrefixOperator_def
      evalPrefixExpression_def as_interface_def isError_def
      new_Integer_def token_defs tag_defs sint_add64 sint_diff64 sint_mult64 sint_minus64)

theorem integer_arithmetic_wraps_witness:
  "Eval (InfixExpression (PrefixExpression MINUS (IntegerLiteral 9223372036854775807)) MINUS
           (IntegerLiteral 1)) \<lparr>env = Map.empty, allocs = 0\<rparr>
     = Inr (Some (Integer 3 (- 9223372036854775808)), \<lparr>env = Map.empty, allocs = 4\<rparr>)
   \<and> Eval (PrefixExpression MINUS
             (InfixExpression (PrefixExpression MINUS (IntegerLiteral 9223372036854775807)) MINUS
                (IntegerLiteral 1))) \<lparr>env = Map.empty, allocs = 0\<rparr>
     = Inr (Some (Integer 4 (- 9223372036854775808)), \<lparr>env = Map.empty, allocs = 5\<rparr>)"
  using integer_arithmetic_wraps [THEN conjunct2, THEN conjunct2, THEN conjunct2,
      THEN conjunct2, THEN conjunct2, THEN conjunct2, rule_format,
      where right = "InfixExpression (PrefixExpression MINUS (IntegerLiteral 9223372036854775807))
                       MINUS (IntegerLiteral 1)"
        and st = "\<lparr>env = Map.empty, allocs = 0\<rparr>" and p = 3
        and a = "- 9223372036854775808"
        and ?st1.0 = "\<lparr>env = Map.empty, allocs = 4\<rparr>"]
  by (simp add: as_interface_def new_Integer_def isError_def evalInfixExpression_def
      evalIntegerInfixExpression_def evalPrefixExpression_def evalMinusPrefixOperator_def
      tag_defs token_defs)

section \<open>Let statements and the environment\<close>

lemma evalPrefixExpression_env:
  "evalPrefixExpression operator r st = Inr (x, st1) \<Longrightarrow> env st1 = env st"
  by (auto simp: evalPrefixExpression_def evalMinusPrefixOperator_def newError_def
      new_Integer_def split: if_splits option.splits object.splits)

lemma evalIntegerInfixExpression_env:
  "evalIntegerInfixExpression a b operator st = Inr (x, st1) \<Longrightarrow> env st1 = env st"
  by (auto simp: evalIntegerInfixExpression_def newError_def new_Integer_def split: if_splits)

lemma evalInfixExpression_env:
  "evalInfixExpression l r operator st = Inr (x, st1) \<Longrightarrow> env st1 = env st"
  by (auto simp: evalInfixExpression_def newError_def
      dest: evalIntegerInfixExpression_env split: if_splits option.splits object.splits)

lemma as_interface_Inr:
  "as_interface r = Inr (x, st1) \<Longrightarrow> \<exists>y. r = Inr (y, st1)"
  by (auto simp: as_interface_def split: sum.splits)

lemma evalProgram_loop_env:
  assumes "\<And>s st r st1. s \<in> set ss \<Longrightarrow> Eval s st = Inr (r, st1) \<Longrightarrow> env st1 = env st"
  shows "evalProgram_loop ss r0 st = Inr (r, st1) \<Longrightarrow> env st1 = env st"
  using assms
proof (induction ss arbitrary: r0 st)
  case Nil
  then show ?case by simp
next
  case (Cons s ss)
  from Cons.prems(1) obtain res st' where s: "Eval s st = Inr (res, st')"
    by (auto split: sum.splits)
  then have e: "env st' = env st"
    using Cons.prems(2) [of s st res st'] by simp
  from Cons.prems(1) s
  have "st1 = st' \<or> evalProgram_loop ss res st' = Inr (r, st1)"
    by (auto split: option.splits object.splits)
  then show ?case
  proof
    assume "st1 = st'"
    with e show ?thesis by simp
  next
    assume "evalProgram_loop ss res st' = Inr (r, st1)"
    then have "env st1 = env st'"
      using Cons.prems(2) by (intro Cons.IH) auto
    with e show ?thesis by simp
  qed
qed

lemma evalBlockStatement_loop_env:
  assumes "\<And>s st r st1. s \<in> set ss \<Longrightarrow> Eval s st = Inr (r, st1) \<Longrightarrow> env st1 = env st"
  shows "evalBlockStatement_loop ss r0 st = Inr (r, st1) \<Longrightarrow> env st1 = env st"
  using assms
proof (induction ss arbitrary: r0 st)
  case Nil
  then show ?case by simp
next
  case (Cons s ss)
  from Cons.prems(1) obtain res st' where s: "Eval s st = Inr (res, st')"
    by (auto split: sum.splits)
  then have e: "env st' = env st"
    using Cons.prems(2) [of s st res st'] by simp
  from Cons.prems(1) s
  have "st1 = st' \<or> evalBlockStatement_loop ss res st' = Inr (r, st1)"
    by (auto split: option.splits if_splits)
  then show ?case
  proof
    assume "st1 = st'"
    with e show ?thesis by simp
  next
    assume "evalBlockStatement_loop ss res st' = Inr (r, st1)"
    then have "env st1 = env st'"
      using Cons.prems(2) by (intro Cons.IH) auto
    with e show ?thesis by simp
  qed
qed

lemma Eval_without_let_env:
  "\<not> contains_let n \<Longrightarrow> Eval n st = Inr (r, st1) \<Longrightarrow> env st1 = env st"
proof (induction n arbitrary: st r st1)
  case (Program x)
  then show ?case by (auto intro: evalProgram_loop_env [where ss = x])
next
  case (BlockStatement x)
  then show ?case by (auto intro: evalBlockStatement_loop_env [where ss = x])
next
  case (ExpressionStatement n)
  then show ?case by simp
next
  case (IntegerLiteral x)
  then show ?case by (auto simp: as_interface_def new_Integer_def)
next
  case (BooleanLiteral x)
  then show ?case by simp
next
  case (PrefixExpression x1a n)
  then show ?case
    by (fastforce split: sum.splits if_splits
        dest!: as_interface_Inr dest: evalPrefixExpression_env)
next
  case (IfExpression n1 n2 x3)
  from IfExpression.prems obtain c st' where c: "Eval n1 st = Inr (c, st')"
    by (auto split: sum.splits)
  with IfExpression have e: "env st' = env st" by simp
  from IfExpression.prems c
  have "Eval n2 st' = Inr (r, st1) \<or> (\<exists>alt. x3 = Some alt \<and> Eval alt st' = Inr (r, st1))
        \<or> st1 = st'"
    by (auto split: if_splits option.splits)
  then show ?case
  proof (elim disjE exE conjE)
    assume "Eval n2 st' = Inr (r, st1)"
    with IfExpression e show ?thesis by simp
  next
    fix alt assume "x3 = Some alt" "Eval alt st' = Inr (r, st1)"
    with IfExpression.IH(3) [of alt st' r st1] IfExpression.prems(1) e
    show ?thesis by simp
  next
    assume "st1 = st'"
    with e show ?thesis by simp
  qed
next
  case (InfixExpression n1 x2 n2)
  from InfixExpression.prems obtain l st' where l: "Eval n1 st = Inr (l, st')"
    by (auto split: sum.splits)
  with InfixExpression have e: "env st' = env st" by simp
  show ?case
  proof (cases "isError l")
    case True
    with InfixExpression.prems l e show ?thesis by simp
  next
    case False
    with InfixExpression.prems l obtain rr st'' where rr: "Eval n2 st' = Inr (rr, st'')"
      by (auto split: sum.splits)
    with InfixExpression have e2: "env st'' = env st'" by simp
    from InfixExpression.prems l False rr
    have "st1 = st'' \<or> (\<exists>y. evalInfixExpression l rr x2 st'' = Inr (y, st1))"
      by (auto split: if_splits dest: as_interface_Inr)
    with e e2 show ?thesis
      by (auto dest: evalInfixExpression_env)
  qed
next
  case (ReturnStatement n)
  then show ?case
    by (fastforce simp: as_interface_def new_ReturnValue_def split: sum.splits if_splits)
next
  case (LetStatement x1a n)
  then show ?case by simp
next
  case (Identifier x)
  then show ?case
    by (auto simp: Get_def as_interface_def newError_def split: option.splits)
next
  case OtherNode
  then show ?case by simp
qed

text \<open>
  C9, as the code has it. When the value expression of a LetStatement evaluates to an
  Error, the statement returns that Error and binds nothing: the state is the one the
  value expression has left, and the environment is the one before the statement
  whenever no let statement occurs inside the value expression. Otherwise the value is
  bound under the name, creating or overwriting the binding, the statement has no result,
  and the name then evaluates to that value; \<open>let x = 5; x\<close> yields the Integer 5.
\<close>

theorem let_statement:
  "(\<forall>name v st val st1. Eval v st = Inr (val, st1) \<and> isError val \<longrightarrow>
      Eval (LetStatement name v) st = Inr (val, st1))
   \<and> (\<forall>v st val st1. Eval v st = Inr (val, st1) \<and> \<not> contains_let v \<longrightarrow> env st1 = env st)
   \<and> (\<forall>name v st val st1. Eval v st = Inr (val, st1) \<and> \<not> isError val \<longrightarrow>
      Eval (LetStatement name v) st = Inr (None, st1\<lparr>env := (env st1)(name \<mapsto> val)\<rparr>)
      \<and> Eval (Identifier name) (st1\<lparr>env := (env st1)(name \<mapsto> val)\<rparr>) =
          Inr (val, st1\<lparr>env := (env st1)(name \<mapsto> val)\<rparr>))
   \<and> (\<forall>st. Eval (Program [LetStatement ''x'' (IntegerLiteral 5),
                           ExpressionStatement (Identifier ''x'')]) st =
          Inr (Some (Integer (allocs st) 5),
               st\<lparr>env := (env st)(''x'' \<mapsto> Some (Integer (allocs st) 5)),
                  allocs := allocs st + 1\<rparr>))"
proof (intro conjI allI impI)
  fix v st val st1
  assume "Eval v st = Inr (val, st1) \<and> \<not> contains_let v"
  then show "env st1 = env st"
    by (blast intro: Eval_without_let_env)
qed (simp_all add: Set_def Get_def as_interface_def new_Integer_def isError_def tag_defs)

theorem let_statement_witness:
  "Eval (Identifier ''foobar'') \<lparr>env = Map.empty, allocs = 0\<rparr>
     = Inr (Some (Error 0 ''identifier not found: foobar''), \<lparr>env = Map.empty, allocs = 1\<rparr>)
   \<and> isError (Some (Error 0 ''identifier not found: foobar''))
   \<and> \<not> contains_let (Identifier ''foobar'')
   \<and> Eval (LetStatement ''x'' (Identifier ''foobar'')) \<lparr>env = Map.empty, allocs = 0\<rparr>
     = Inr (Some (Error 0 ''identifier not found: foobar''), \<lparr>env = Map.empty, allocs = 1\<rparr>)
   \<and> env \<lparr>env = Map.empty, allocs = 1\<rparr> = env \<lparr>env = Map.empty, allocs = 0\<rparr>
   \<and> Eval (IntegerLiteral 5) \<lparr>env = Map.empty, allocs = 0\<rparr>
     = Inr (Some (Integer 0 5), \<lparr>env = Map.empty, allocs = 1\<rparr>)
   \<and> \<not> isError (Some (Integer 0 5))
   \<and> Eval (LetStatement ''x'' (IntegerLiteral 5)) \<lparr>env = Map.empty, allocs = 0\<rparr>
     = Inr (None, \<lparr>env = [''x'' \<mapsto> Some (Integer 0 5)], allocs = 1\<rparr>)
   \<and> Eval (Identifier ''x'') \<lparr>env = [''x'' \<mapsto> Some (Integer 0 5)], allocs = 1\<rparr>
     = Inr (Some (Integer 0 5), \<lparr>env = [''x'' \<mapsto> Some (Integer 0 5)], allocs = 1\<rparr>)"
  using let_statement [THEN conjunct1, rule_format,
      where name = "''x''" and v = "Identifier ''foobar''"
        and st = "\<lparr>env = Map.empty, allocs = 0\<rparr>"
        and val = "Some (Error 0 ''identifier not found: foobar'')"
        and ?st1.0 = "\<lparr>env = Map.empty, allocs = 1\<rparr>"]
    let_statement [THEN conjunct2, THEN conjunct1, rule_format,
      where v = "Identifier ''foobar''"
        and st = "\<lparr>env = Map.empty, allocs = 0\<rparr>"
        and val = "Some (Error 0 ''identifier not found: foobar'')"
        and ?st1.0 = "\<lparr>env = Map.empty, allocs = 1\<rparr>"]
    let_statement [THEN conjunct2, THEN conjunct2, THEN conjunct1, rule_format,
      where name = "''x''" and v = "IntegerLiteral 5"
        and st = "\<lparr>env = Map.empty, allocs = 0\<rparr>"
        and val = "Some (Integer 0 5)"
        and ?st1.0 = "\<lparr>env = Map.empty, allocs = 1\<rparr>"]
  by (simp add: Get_def as_interface_def newError_def new_Integer_def isError_def tag_defs)

text \<open>
  The claim C9 taken literally fails when the value expression itself contains a let
  statement that runs before the Error arises: in
  \<open>let x = if (true) { let y = 1; foobar }\<close> the Error is returned, \<open>x\<close> is not bound, and
  \<open>y\<close> is.
\<close>

theorem let_error_after_nested_let:
  "Eval (LetStatement ''x''
           (IfExpression (BooleanLiteral True)
              (BlockStatement [LetStatement ''y'' (IntegerLiteral 1),
                               ExpressionStatement (Identifier ''foobar'')])
              None))
     \<lparr>env = Map.empty, allocs = 0\<rparr>
     = Inr (Some (Error 1 ''identifier not found: foobar''),
            \<lparr>env = [''y'' \<mapsto> Some (Integer 0 1)], allocs = 2\<rparr>)
   \<and> isError (Some (Error 1 ''identifier not found: foobar''))
   \<and> env \<lparr>env = [''y'' \<mapsto> Some (Integer 0 1)], allocs = 2\<rparr> ''y''
       \<noteq> env \<lparr>env = Map.empty, allocs = 0\<rparr> ''y''"
  by (simp add: Set_def Get_def as_interface_def new_Integer_def newError_def isError_def
      isTruthy_iff nativeBoolToBooleanObject_def singleton_defs tag_defs)

section \<open>An Error in the condition of a conditional\<close>

text \<open>
  C1 does not hold of the code: \<open>evalIfExpression\<close> has no \<open>isError\<close> check on the
  condition, and an Error is truthy. With \<open>foobar\<close> unbound, \<open>if (foobar) { 10 }\<close>
  evaluates the consequence and yields the Integer 10 instead of the Error, and
  \<open>if (foobar) { let x = 10 } else { 20 }\<close> executes the let statement.
\<close>

theorem if_condition_error:
  "Eval (Identifier ''foobar'') \<lparr>env = Map.empty, allocs = 0\<rparr>
     = Inr (Some (Error 0 ''identifier not found: foobar''), \<lparr>env = Map.empty, allocs = 1\<rparr>)
   \<and> Eval (IfExpression (Identifier ''foobar'')
             (BlockStatement [ExpressionStatement (IntegerLiteral 10)]) None)
        \<lparr>env = Map.empty, allocs = 0\<rparr>
     = Inr (Some (Integer 1 10), \<lparr>env = Map.empty, allocs = 2\<rparr>)
   \<and> Eval (IfExpression (Identifier ''foobar'')
             (BlockStatement [LetStatement ''x'' (IntegerLiteral 10)])
             (Some (BlockStatement [ExpressionStatement (IntegerLiteral 20)])))
        \<lparr>env = Map.empty, allocs = 0\<rparr>
     = Inr (None, \<lparr>env = [''x'' \<mapsto> Some (Integer 1 10)], allocs = 2\<rparr>)"
  by (simp add: Set_def Get_def as_interface_def new_Integer_def newError_def isError_def
      isTruthy_iff singleton_defs tag_defs)

end
